theory Spec2Isabelle
  imports Complex_Main
begin

section \<open>The scanner screen of \<open>src/app/index.tsx\<close>\<close>

text \<open>
  \<open>ScannerScreen\<close> is a function component: six state cells, one memoised scan handler, one
  effect that runs at mount (location bootstrap and database open) and one effect that
  depends on the \<open>database\<close> cell (first fetch, and a cleanup that closes the handle).
  Every \<open>async\<close> function is cut at its \<open>await\<close>s: the part up to the first \<open>await\<close> is one
  definition, and each resumption is another one, taking the awaited value. The collaborators
  (\<open>expo-location\<close>, \<open>../src/database\<close>, \<open>../src/webservice\<close>, \<open>expo-clipboard\<close>, \<open>Alert\<close>) are
  not part of the file: each call to one of them is recorded in a trace, in program order, and
  each promise they return is settled by an event of the environment.
\<close>

subsection \<open>Data\<close>

text \<open>
  Strings are lists of code units. The literals of the source hold one code unit above
  ASCII, U+00F3, written \<open>CHR 0xF3\<close>.
\<close>

text \<open>The argument of \<open>saveCode\<close>, lines 23 to 26, and \<open>CodeRecord\<close>, which adds the identity.\<close>

record CodeInput =
  content :: string
  format :: string

record CodeRecord = CodeInput +
  record_id :: "string option"

text \<open>\<open>BarcodeScanningResult\<close>: the two fields the handler reads, \<open>data\<close> and \<open>type\<close>.\<close>

record BarcodeScanningResult =
  scan_data :: string
  scan_type :: string

text \<open>\<open>Location.LocationObject\<close>: \<open>coords.latitude\<close> and \<open>coords.longitude\<close>.\<close>

record LocationObject =
  latitude :: real
  longitude :: real

datatype DatabaseHandler = Handle nat

text \<open>Where a call of \<open>fetchAllCodes\<close> stands: line 28 (in handler invocation \<open>t\<close>) or line 65.\<close>

datatype call_site = FromHandler nat | FromEffect

text \<open>The calls the component makes, and the value an awaited \<open>fetchAllCodes\<close> returns.\<close>

datatype action =
    AlertAlert string string
  | SaveCode CodeInput
  | FetchAllCodes call_site
  | FetchAllCodesReturned call_site "CodeRecord list"
  | SetCodeRecords "CodeRecord list"
  | RequestForegroundPermissions
  | GetCurrentPosition
  | SetLocationError string
  | SetCurrentLocation LocationObject
  | ConnectDatabase
  | SetDatabase DatabaseHandler
  | CloseConnection DatabaseHandler
  | ClipboardSetString string

text \<open>The \<open>await\<close> at which each asynchronous function is suspended.\<close>

datatype location_pc = LocNotStarted | AwaitPermission | AwaitPosition | LocReturned | LocRejected

datatype open_pc = OpenNotStarted | AwaitConnect | OpenReturned | OpenRejected

datatype scan_pc = AwaitSave | AwaitFetch | ScanReturned | ScanRejected

text \<open>
  The state cells of lines 12 to 17 (\<open>cameraDirection\<close> is never written and
  \<open>cameraPermissions\<close> only selects what is drawn), the variable \<open>active\<close> of line 34, whether
  the component is mounted, the suspended functions, the cleanup that the effect of line 61
  returned (the handle its closure holds), and the trace.
\<close>

record screen =
  currentLocation :: "LocationObject option"
  locationError :: "string option"
  codeRecords :: "CodeRecord list"
  database :: "DatabaseHandler option"
  mounted :: bool
  active :: bool
  locationTask :: location_pc
  databaseTask :: open_pc
  effectFetches :: nat
  scanTasks :: "scan_pc list"
  dbCleanup :: "DatabaseHandler option"
  trace :: "action list"

definition emit :: "action \<Rightarrow> screen \<Rightarrow> screen" where
  "emit a s = s\<lparr>trace := trace s @ [a]\<rparr>"

subsection \<open>Literals\<close>

definition detected_title :: string where
  "detected_title = ''C'' @ [CHR 0xF3] @ ''digo detectado''"

definition permission_message :: string where
  "permission_message = ''Permiso de ubicaci'' @ [CHR 0xF3] @ ''n no otorgado''"

definition error_prefix :: string where
  "error_prefix = ''Error: ''"

definition coords_prefix :: string where
  "coords_prefix = ''Ubicaci'' @ [CHR 0xF3] @ ''n: ''"

definition pending_text :: string where
  "pending_text = ''Obteniendo ubicaci'' @ [CHR 0xF3] @ ''n...''"

subsection \<open>State setters\<close>

text \<open>
  A setter of \<open>useState\<close>. The call is made wherever the source makes it, so it is always
  recorded. The framework applies it to a mounted component only: an update addressed to an
  unmounted component changes nothing and starts no render.
\<close>

definition setLocationError :: "string \<Rightarrow> screen \<Rightarrow> screen" where
  "setLocationError m s =
     (let s1 = emit (SetLocationError m) s
      in if mounted s1 then s1\<lparr>locationError := Some m\<rparr> else s1)"

definition setCurrentLocation :: "LocationObject \<Rightarrow> screen \<Rightarrow> screen" where
  "setCurrentLocation p s =
     (let s1 = emit (SetCurrentLocation p) s
      in if mounted s1 then s1\<lparr>currentLocation := Some p\<rparr> else s1)"

definition setCodeRecords :: "CodeRecord list \<Rightarrow> screen \<Rightarrow> screen" where
  "setCodeRecords rs s =
     (let s1 = emit (SetCodeRecords rs) s
      in if mounted s1 then s1\<lparr>codeRecords := rs\<rparr> else s1)"

subsection \<open>The effect on \<open>database\<close>, lines 61 to 70\<close>

text \<open>
  The body: nothing while the handle is undefined; otherwise the anonymous function is
  called, which runs up to its \<open>await fetchAllCodes()\<close>, and the cleanup is returned.
\<close>

definition databaseEffect :: "screen \<Rightarrow> screen" where
  "databaseEffect s =
     (case database s of
        None \<Rightarrow> s
      | Some h \<Rightarrow>
          (emit (FetchAllCodes FromEffect) s)
            \<lparr>effectFetches := Suc (effectFetches s), dbCleanup := Some h\<rparr>)"

text \<open>The anonymous function resumed with the records (line 66), or rejected.\<close>

definition databaseEffect_fetched :: "CodeRecord list \<Rightarrow> screen \<Rightarrow> screen" where
  "databaseEffect_fetched rs s =
     setCodeRecords rs
       (emit (FetchAllCodesReturned FromEffect rs) (s\<lparr>effectFetches := effectFetches s - 1\<rparr>))"

definition databaseEffect_rejected :: "screen \<Rightarrow> screen" where
  "databaseEffect_rejected s = s\<lparr>effectFetches := effectFetches s - 1\<rparr>"

text \<open>The cleanup of line 69, when one was returned.\<close>

definition databaseCleanup :: "screen \<Rightarrow> screen" where
  "databaseCleanup s =
     (case dbCleanup s of
        None \<Rightarrow> s
      | Some h \<Rightarrow> (emit (CloseConnection h) s)\<lparr>dbCleanup := None\<rparr>)"

text \<open>
  \<open>setDatabase\<close>: on a mounted component a new value is stored, the component renders
  again, and since the dependency \<open>database\<close> changed the framework runs the old cleanup
  and then the effect. The same value again starts nothing.
\<close>

definition setDatabase :: "DatabaseHandler \<Rightarrow> screen \<Rightarrow> screen" where
  "setDatabase h s =
     (let s1 = emit (SetDatabase h) s
      in if \<not> mounted s1 \<or> database s1 = Some h then s1
         else databaseEffect (databaseCleanup (s1\<lparr>database := Some h\<rparr>)))"

subsection \<open>The effect at mount, lines 33 to 58\<close>

text \<open>\<open>setupLocationService\<close>: up to line 37, after line 37, after line 45.\<close>

definition setupLocationService :: "screen \<Rightarrow> screen" where
  "setupLocationService s = (emit RequestForegroundPermissions s)\<lparr>locationTask := AwaitPermission\<rparr>"

definition setupLocationService_permission :: "string \<Rightarrow> screen \<Rightarrow> screen" where
  "setupLocationService_permission status s =
     (if \<not> active s then s\<lparr>locationTask := LocReturned\<rparr>
      else if status \<noteq> ''granted''
        then (setLocationError permission_message s)\<lparr>locationTask := LocReturned\<rparr>
      else (emit GetCurrentPosition s)\<lparr>locationTask := AwaitPosition\<rparr>)"

definition setupLocationService_position :: "LocationObject \<Rightarrow> screen \<Rightarrow> screen" where
  "setupLocationService_position position s =
     (if active s then setCurrentLocation position s else s)\<lparr>locationTask := LocReturned\<rparr>"

text \<open>\<open>initializeDatabase\<close>: up to line 50, after line 50.\<close>

definition initializeDatabase :: "screen \<Rightarrow> screen" where
  "initializeDatabase s = (emit ConnectDatabase s)\<lparr>databaseTask := AwaitConnect\<rparr>"

definition initializeDatabase_connected :: "DatabaseHandler \<Rightarrow> screen \<Rightarrow> screen" where
  "initializeDatabase_connected dbInstance s = (setDatabase dbInstance s)\<lparr>databaseTask := OpenReturned\<rparr>"

definition mountEffect :: "screen \<Rightarrow> screen" where
  "mountEffect s = initializeDatabase (setupLocationService (s\<lparr>active := True\<rparr>))"

text \<open>The cleanup of line 57.\<close>

definition mountCleanup :: "screen \<Rightarrow> screen" where
  "mountCleanup s = s\<lparr>active := False\<rparr>"

subsection \<open>\<open>handleScanResult\<close>, lines 20 to 30\<close>

text \<open>
  Up to the \<open>await\<close> of line 23: the notice, the call of \<open>saveCode\<close>, and a new suspended
  invocation, numbered by its position in \<open>scanTasks\<close>.
\<close>

definition handleScanResult :: "BarcodeScanningResult \<Rightarrow> screen \<Rightarrow> screen" where
  "handleScanResult scanData s =
     (emit (SaveCode \<lparr>content = scan_data scanData, format = scan_type scanData\<rparr>)
        (emit (AlertAlert detected_title (scan_data scanData)) s))
       \<lparr>scanTasks := scanTasks s @ [AwaitSave]\<rparr>"

text \<open>After line 23: the call of \<open>fetchAllCodes\<close> of line 28.\<close>

definition handleScanResult_saved :: "nat \<Rightarrow> screen \<Rightarrow> screen" where
  "handleScanResult_saved t s =
     (emit (FetchAllCodes (FromHandler t)) s)\<lparr>scanTasks := (scanTasks s)[t := AwaitFetch]\<rparr>"

text \<open>After line 28: line 29.\<close>

definition handleScanResult_fetched :: "nat \<Rightarrow> CodeRecord list \<Rightarrow> screen \<Rightarrow> screen" where
  "handleScanResult_fetched t updatedRecords s =
     setCodeRecords updatedRecords
       (emit (FetchAllCodesReturned (FromHandler t) updatedRecords)
          (s\<lparr>scanTasks := (scanTasks s)[t := ScanReturned]\<rparr>))"

definition handleScanResult_rejected :: "nat \<Rightarrow> screen \<Rightarrow> screen" where
  "handleScanResult_rejected t s = s\<lparr>scanTasks := (scanTasks s)[t := ScanRejected]\<rparr>"

definition awaiting :: "screen \<Rightarrow> nat \<Rightarrow> scan_pc \<Rightarrow> bool" where
  "awaiting s t pc = (t < length (scanTasks s) \<and> scanTasks s ! t = pc)"

subsection \<open>What is drawn: \<open>locationStatus\<close>, lines 91 to 95, and \<open>copyToClipboard\<close>, lines 98 to 101\<close>

text \<open>
  A string is truthy when it is not empty and an object always is. \<open>fmt\<close> is the conversion
  of a number to a string that the template literal applies.
\<close>

definition locationStatus :: "(real \<Rightarrow> string) \<Rightarrow> screen \<Rightarrow> string" where
  "locationStatus fmt s =
     (case locationError s of
        Some m \<Rightarrow>
          if m \<noteq> [] then error_prefix @ m
          else (case currentLocation s of
                  Some p \<Rightarrow> coords_prefix @ fmt (latitude p) @ '', '' @ fmt (longitude p)
                | None \<Rightarrow> pending_text)
      | None \<Rightarrow>
          (case currentLocation s of
             Some p \<Rightarrow> coords_prefix @ fmt (latitude p) @ '', '' @ fmt (longitude p)
           | None \<Rightarrow> pending_text))"

definition copyToClipboard :: "CodeRecord \<Rightarrow> screen \<Rightarrow> screen" where
  "copyToClipboard item s =
     emit (AlertAlert ''Copiado!'' ''Texto en portapapeles'') (emit (ClipboardSetString (content item)) s)"

subsection \<open>The component over time\<close>

text \<open>The hooks at the first render, before any effect has run.\<close>

definition first_render :: screen where
  "first_render =
     \<lparr>currentLocation = None, locationError = None, codeRecords = [], database = None,
      mounted = True, active = False, locationTask = LocNotStarted,
      databaseTask = OpenNotStarted, effectFetches = 0, scanTasks = [], dbCleanup = None,
      trace = []\<rparr>"

text \<open>After the first render both effects run, in the order they are declared.\<close>

definition mounted_screen :: screen where
  "mounted_screen = databaseEffect (mountEffect first_render)"

text \<open>At unmount the cleanups run in the order of their effects.\<close>

definition unmount :: "screen \<Rightarrow> screen" where
  "unmount s = (if mounted s then (databaseCleanup (mountCleanup s))\<lparr>mounted := False\<rparr> else s)"

text \<open>
  What the environment does: it settles a pending promise, delivers a scan to
  \<open>onBarcodeScanned\<close>, presses \<open>Copiar\<close> on an item, or unmounts the screen.
\<close>

datatype event =
    PermissionResolved string
  | PermissionRejected
  | PositionResolved LocationObject
  | PositionRejected
  | ConnectResolved DatabaseHandler
  | ConnectRejected
  | EffectFetchResolved "CodeRecord list"
  | EffectFetchRejected
  | BarcodeScanned BarcodeScanningResult
  | SaveResolved nat
  | SaveRejected nat
  | FetchResolved nat "CodeRecord list"
  | FetchRejected nat
  | CopyPressed CodeRecord
  | Unmount

text \<open>
  One turn of the event loop. A promise that is not pending cannot be settled: such an
  event leaves the state as it is. The handler is memoised with no dependency and tests
  nothing before it starts, so a scan is taken in any state; so is a press on \<open>Copiar\<close>.
  A state update and the render and effects it causes are one turn.
\<close>

fun step :: "event \<Rightarrow> screen \<Rightarrow> screen" where
  "step (PermissionResolved status) s =
     (if locationTask s = AwaitPermission then setupLocationService_permission status s else s)"
| "step PermissionRejected s =
     (if locationTask s = AwaitPermission then s\<lparr>locationTask := LocRejected\<rparr> else s)"
| "step (PositionResolved position) s =
     (if locationTask s = AwaitPosition then setupLocationService_position position s else s)"
| "step PositionRejected s =
     (if locationTask s = AwaitPosition then s\<lparr>locationTask := LocRejected\<rparr> else s)"
| "step (ConnectResolved dbInstance) s =
     (if databaseTask s = AwaitConnect then initializeDatabase_connected dbInstance s else s)"
| "step ConnectRejected s =
     (if databaseTask s = AwaitConnect then s\<lparr>databaseTask := OpenRejected\<rparr> else s)"
| "step (EffectFetchResolved rs) s =
     (if 0 < effectFetches s then databaseEffect_fetched rs s else s)"
| "step EffectFetchRejected s =
     (if 0 < effectFetches s then databaseEffect_rejected s else s)"
| "step (BarcodeScanned scanData) s = handleScanResult scanData s"
| "step (SaveResolved t) s =
     (if awaiting s t AwaitSave then handleScanResult_saved t s else s)"
| "step (SaveRejected t) s =
     (if awaiting s t AwaitSave then handleScanResult_rejected t s else s)"
| "step (FetchResolved t rs) s =
     (if awaiting s t AwaitFetch then handleScanResult_fetched t rs s else s)"
| "step (FetchRejected t) s =
     (if awaiting s t AwaitFetch then handleScanResult_rejected t s else s)"
| "step (CopyPressed item) s = copyToClipboard item s"
| "step Unmount s = unmount s"

fun run :: "event list \<Rightarrow> screen \<Rightarrow> screen" where
  "run [] s = s"
| "run (e # es) s = run es (step e s)"

subsection \<open>Reading the trace\<close>

fun is_save :: "action \<Rightarrow> bool" where
  "is_save (SaveCode c) = True"
| "is_save a = False"

fun is_fetch :: "action \<Rightarrow> bool" where
  "is_fetch (FetchAllCodes c) = True"
| "is_fetch a = False"

fun is_effect_fetch :: "action \<Rightarrow> bool" where
  "is_effect_fetch (FetchAllCodes FromEffect) = True"
| "is_effect_fetch a = False"

fun is_close :: "action \<Rightarrow> bool" where
  "is_close (CloseConnection h) = True"
| "is_close a = False"

fun is_location_write :: "action \<Rightarrow> bool" where
  "is_location_write (SetLocationError m) = True"
| "is_location_write (SetCurrentLocation p) = True"
| "is_location_write a = False"

fun is_position_query :: "action \<Rightarrow> bool" where
  "is_position_query GetCurrentPosition = True"
| "is_position_query a = False"

fun is_permission_request :: "action \<Rightarrow> bool" where
  "is_permission_request RequestForegroundPermissions = True"
| "is_permission_request a = False"

text \<open>How many calls of one kind the component has made so far.\<close>

definition calls :: "(action \<Rightarrow> bool) \<Rightarrow> screen \<Rightarrow> nat" where
  "calls P s = length (filter P (trace s))"

fun written :: "action \<Rightarrow> CodeRecord list option" where
  "written (SetCodeRecords rs) = Some rs"
| "written a = None"

fun fetched :: "action \<Rightarrow> CodeRecord list option" where
  "fetched (FetchAllCodesReturned c rs) = Some rs"
| "fetched a = None"

text \<open>The values passed to \<open>setCodeRecords\<close>, and the values \<open>fetchAllCodes\<close> returned, in order.\<close>

definition record_writes :: "screen \<Rightarrow> CodeRecord list list" where
  "record_writes s = List.map_filter written (trace s)"

definition fetch_results :: "screen \<Rightarrow> CodeRecord list list" where
  "fetch_results s = List.map_filter fetched (trace s)"

text \<open>The latest of them, and the initial value of the cell when there is none yet.\<close>

definition latest :: "CodeRecord list list \<Rightarrow> CodeRecord list" where
  "latest rss = (if rss = [] then [] else last rss)"

fun is_scan :: "event \<Rightarrow> bool" where
  "is_scan (BarcodeScanned d) = True"
| "is_scan e = False"

text \<open>
  The fetches that complete. An event that resolves a pending \<open>fetchAllCodes\<close>, of the handler
  or of the effect, completes it with the records it carries; no other event completes one.
\<close>

fun completed :: "event \<Rightarrow> screen \<Rightarrow> CodeRecord list list" where
  "completed (FetchResolved t rs) s = (if awaiting s t AwaitFetch then [rs] else [])"
| "completed (EffectFetchResolved rs) s = (if 0 < effectFetches s then [rs] else [])"
| "completed e s = []"

text \<open>The results of the fetches completed along an execution from \<open>s\<close>, in order.\<close>

fun completed_fetches :: "event list \<Rightarrow> screen \<Rightarrow> CodeRecord list list" where
  "completed_fetches [] s = []"
| "completed_fetches (e # es) s = completed e s @ completed_fetches es (step e s)"

text \<open>The three forms of the status line.\<close>

definition is_pending_form :: "string \<Rightarrow> bool" where
  "is_pending_form str = (str = pending_text)"

definition is_error_form :: "string \<Rightarrow> bool" where
  "is_error_form str = (take (length error_prefix) str = error_prefix)"

definition is_coords_form :: "string \<Rightarrow> bool" where
  "is_coords_form str = (take (length coords_prefix) str = coords_prefix)"

subsection \<open>Invariants of an execution\<close>

text \<open>Invocation \<open>t\<close> of the handler has called \<open>fetchAllCodes\<close> only once it is past its first \<open>await\<close>.\<close>

definition fetch_after_save :: "screen \<Rightarrow> bool" where
  "fetch_after_save s =
     (\<forall>t. FetchAllCodes (FromHandler t) \<in> set (trace s) \<longrightarrow>
        t < length (scanTasks s) \<and> scanTasks s ! t \<noteq> AwaitSave)"

text \<open>
  The handle, its cleanup, the first fetch and the close: a cleanup is held exactly while a
  mounted screen has a handle, the effect has fetched exactly when there is a handle, and the
  handle has been closed exactly when a screen that had one was unmounted.
\<close>

definition db_inv :: "screen \<Rightarrow> bool" where
  "db_inv s =
     (dbCleanup s = (if mounted s then database s else None) \<and>
      calls is_effect_fetch s = (case database s of None \<Rightarrow> 0 | Some h \<Rightarrow> 1) \<and>
      calls is_close s = (if \<not> mounted s \<and> database s \<noteq> None then 1 else 0) \<and>
      (database s = None \<longrightarrow> effectFetches s = 0) \<and>
      (databaseTask s = AwaitConnect \<longrightarrow> database s = None))"

text \<open>
  The location bootstrap: \<open>active\<close> is true on a mounted screen only, the permission is
  requested once, nothing is written before the function has returned, and an error excludes
  a position.
\<close>

definition loc_inv :: "screen \<Rightarrow> bool" where
  "loc_inv s =
     ((active s \<longrightarrow> mounted s) \<and>
      calls is_permission_request s = 1 \<and>
      (locationTask s = AwaitPermission \<longrightarrow> calls is_position_query s = 0) \<and>
      (locationTask s \<noteq> LocReturned \<longrightarrow> locationError s = None \<and> currentLocation s = None) \<and>
      (locationError s = None \<or>
       locationError s = Some permission_message \<and> currentLocation s = None))"

text \<open>After a late open: the screen is gone, no cleanup is held, and nothing was closed.\<close>

definition leaked :: "screen \<Rightarrow> bool" where
  "leaked s =
     (\<not> mounted s \<and> dbCleanup s = None \<and> databaseTask s = OpenReturned \<and> calls is_close s = 0)"

section \<open>Properties\<close>

subsection \<open>Executions\<close>

lemmas flow_defs = emit_def setLocationError_def setCurrentLocation_def setCodeRecords_def
  databaseEffect_def databaseEffect_fetched_def databaseEffect_rejected_def databaseCleanup_def
  setDatabase_def setupLocationService_def setupLocationService_permission_def
  setupLocationService_position_def initializeDatabase_def initializeDatabase_connected_def
  mountEffect_def mountCleanup_def handleScanResult_def handleScanResult_saved_def
  handleScanResult_fetched_def handleScanResult_rejected_def awaiting_def copyToClipboard_def
  unmount_def

text \<open>The mounted screen: both requests are out, and nothing else has happened.\<close>

lemma mounted_screen_eq:
  "mounted_screen =
     \<lparr>currentLocation = None, locationError = None, codeRecords = [], database = None,
      mounted = True, active = True, locationTask = AwaitPermission,
      databaseTask = AwaitConnect, effectFetches = 0, scanTasks = [], dbCleanup = None,
      trace = [RequestForegroundPermissions, ConnectDatabase]\<rparr>"
  by (simp add: mounted_screen_def first_render_def flow_defs)

lemma run_append: "run (es1 @ es2) s = run es2 (run es1 s)"
  by (induction es1 arbitrary: s) simp_all

text \<open>What holds at the start and is kept by every step holds after every execution.\<close>

lemma run_invariant:
  assumes "I s" and "\<And>e s. I s \<Longrightarrow> I (step e s)"
  shows "I (run es s)"
  using assms(1) by (induction es arbitrary: s) (simp_all add: assms(2))

lemma map_filter_append:
  "List.map_filter f (xs @ ys) = List.map_filter f xs @ List.map_filter f ys"
  by (simp add: List.map_filter_def)


subsection \<open>The scan handler\<close>

lemma step_saves: "calls is_save (step e s) = calls is_save s + (if is_scan e then 1 else 0)"
  by (cases e) (auto simp: calls_def flow_defs Let_def split: option.splits)

lemma run_saves: "calls is_save (run es s) = calls is_save s + length (filter is_scan es)"
  by (induction es arbitrary: s) (simp_all add: step_saves)

lemma fetch_after_save_step: "fetch_after_save s \<Longrightarrow> fetch_after_save (step e s)"
  unfolding fetch_after_save_def
  by (cases e)
    (auto simp: flow_defs Let_def nth_append nth_list_update split: option.splits if_splits)

lemma fetch_after_save_run: "fetch_after_save (run es mounted_screen)"
proof (rule run_invariant)
  show "fetch_after_save mounted_screen"
    by (simp add: fetch_after_save_def mounted_screen_eq)
qed (rule fetch_after_save_step)

text \<open>
  C1. Delivered a scan, the handler shows the notice and calls \<open>saveCode\<close> with exactly
  \<open>{content: data, format: type}\<close>, and is then suspended at that call. Every scan of an
  execution makes its own call, repeated or not. Invocation \<open>t\<close> has not fetched while its save
  is pending; when the save resolves it calls \<open>fetchAllCodes\<close>, and when that resolves it
  passes the whole result to \<open>setCodeRecords\<close>, which on a mounted screen makes it the list.
\<close>

theorem scan_saves_pair_then_refetches:
  "trace (step (BarcodeScanned d) s) =
     trace s @ [AlertAlert detected_title (scan_data d),
                SaveCode \<lparr>content = scan_data d, format = scan_type d\<rparr>] \<and>
   awaiting (step (BarcodeScanned d) s) (length (scanTasks s)) AwaitSave \<and>
   calls is_save (run es s) = calls is_save s + length (filter is_scan es) \<and>
   (awaiting (run es0 mounted_screen) t0 AwaitSave \<longrightarrow>
      FetchAllCodes (FromHandler t0) \<notin> set (trace (run es0 mounted_screen))) \<and>
   (awaiting s1 t1 AwaitSave \<longrightarrow>
      trace (step (SaveResolved t1) s1) = trace s1 @ [FetchAllCodes (FromHandler t1)] \<and>
      awaiting (step (SaveResolved t1) s1) t1 AwaitFetch) \<and>
   (awaiting s2 t2 AwaitFetch \<longrightarrow>
      trace (step (FetchResolved t2 rs) s2) =
        trace s2 @ [FetchAllCodesReturned (FromHandler t2) rs, SetCodeRecords rs] \<and>
      awaiting (step (FetchResolved t2 rs) s2) t2 ScanReturned \<and>
      (mounted s2 \<longrightarrow> codeRecords (step (FetchResolved t2 rs) s2) = rs))"
proof -
  have "awaiting (run es0 mounted_screen) t0 AwaitSave \<longrightarrow>
      FetchAllCodes (FromHandler t0) \<notin> set (trace (run es0 mounted_screen))"
    using fetch_after_save_run [of es0] by (auto simp: fetch_after_save_def awaiting_def)
  moreover have "calls is_save (run es s) = calls is_save s + length (filter is_scan es)"
    by (rule run_saves)
  ultimately show ?thesis by (simp add: flow_defs Let_def)
qed

theorem scan_saves_pair_then_refetches_witness:
  "awaiting (run [BarcodeScanned \<lparr>scan_data = ''ABC123'', scan_type = ''qr''\<rparr>] mounted_screen) 0 AwaitSave \<and>
   FetchAllCodes (FromHandler 0) \<notin>
     set (trace (run [BarcodeScanned \<lparr>scan_data = ''ABC123'', scan_type = ''qr''\<rparr>] mounted_screen)) \<and>
   awaiting (run [BarcodeScanned \<lparr>scan_data = ''ABC123'', scan_type = ''qr''\<rparr>, SaveResolved 0]
      mounted_screen) 0 AwaitFetch \<and>
   trace (run [BarcodeScanned \<lparr>scan_data = ''ABC123'', scan_type = ''qr''\<rparr>, SaveResolved 0,
               FetchResolved 0 [\<lparr>content = ''ABC123'', format = ''qr'', record_id = Some ''1''\<rparr>]]
      mounted_screen) =
     [RequestForegroundPermissions, ConnectDatabase,
      AlertAlert detected_title ''ABC123'', SaveCode \<lparr>content = ''ABC123'', format = ''qr''\<rparr>,
      FetchAllCodes (FromHandler 0),
      FetchAllCodesReturned (FromHandler 0)
        [\<lparr>content = ''ABC123'', format = ''qr'', record_id = Some ''1''\<rparr>],
      SetCodeRecords [\<lparr>content = ''ABC123'', format = ''qr'', record_id = Some ''1''\<rparr>]] \<and>
   codeRecords (run [BarcodeScanned \<lparr>scan_data = ''ABC123'', scan_type = ''qr''\<rparr>, SaveResolved 0,
               FetchResolved 0 [\<lparr>content = ''ABC123'', format = ''qr'', record_id = Some ''1''\<rparr>]]
      mounted_screen) = [\<lparr>content = ''ABC123'', format = ''qr'', record_id = Some ''1''\<rparr>] \<and>
   calls is_save (run [BarcodeScanned \<lparr>scan_data = ''ABC123'', scan_type = ''qr''\<rparr>,
                       BarcodeScanned \<lparr>scan_data = ''ABC123'', scan_type = ''qr''\<rparr>] mounted_screen) = 2"
  using scan_saves_pair_then_refetches
    [of "\<lparr>scan_data = ''ABC123'', scan_type = ''qr''\<rparr>" mounted_screen
        "[BarcodeScanned \<lparr>scan_data = ''ABC123'', scan_type = ''qr''\<rparr>,
          BarcodeScanned \<lparr>scan_data = ''ABC123'', scan_type = ''qr''\<rparr>]"
        "[BarcodeScanned \<lparr>scan_data = ''ABC123'', scan_type = ''qr''\<rparr>]" 0
        "run [BarcodeScanned \<lparr>scan_data = ''ABC123'', scan_type = ''qr''\<rparr>] mounted_screen" 0
        "run [BarcodeScanned \<lparr>scan_data = ''ABC123'', scan_type = ''qr''\<rparr>, SaveResolved 0] mounted_screen" 0
        "[\<lparr>content = ''ABC123'', format = ''qr'', record_id = Some ''1''\<rparr>]"]
  by (simp add: mounted_screen_eq flow_defs Let_def calls_def)


subsection \<open>The record list\<close>

text \<open>What one step adds to the writes and to the list: the fetch it completes, if any.\<close>

lemma step_writes:
  "record_writes (step e s) = record_writes s @ completed e s \<and>
   fetch_results (step e s) = fetch_results s @ completed e s \<and>
   codeRecords (step e s) =
     (if mounted s \<and> completed e s \<noteq> [] then last (completed e s) else codeRecords s) \<and>
   (mounted (step e s) \<longrightarrow> mounted s)"
  unfolding record_writes_def fetch_results_def
  by (cases e) (auto simp: flow_defs Let_def map_filter_append split: option.splits if_splits)

lemma run_mounted: "mounted (run es s) \<Longrightarrow> mounted s"
  by (induction es arbitrary: s) (auto dest: step_writes [THEN conjunct2, THEN conjunct2, THEN conjunct2, THEN mp])

lemma run_writes:
  "record_writes (run es s) = record_writes s @ completed_fetches es s \<and>
   fetch_results (run es s) = fetch_results s @ completed_fetches es s"
  by (induction es arbitrary: s) (simp_all add: step_writes)

lemma run_list:
  "mounted (run es s) \<Longrightarrow>
     codeRecords (run es s) =
       (if completed_fetches es s = [] then codeRecords s else last (completed_fetches es s))"
proof (induction es arbitrary: s)
  case Nil
  then show ?case by simp
next
  case (Cons e es)
  from Cons.prems have later: "mounted (run es (step e s))"
    by simp
  then have "mounted (step e s)"
    by (rule run_mounted)
  then have here: "mounted s"
    using step_writes [of e s] by simp
  from Cons.IH [OF later] here step_writes [of e s] show ?case
    by simp
qed

text \<open>
  C2. In every execution the values passed to \<open>setCodeRecords\<close> are exactly the results of the
  fetches that completed, one write for each and in the order of their completion, and the
  list of a mounted screen is the result of the latest completed fetch (the initial empty
  list while none has completed). The values the trace records as returned by
  \<open>fetchAllCodes\<close> are these same results. A scan by itself writes nothing.
\<close>

theorem record_list_is_latest_fetch:
  "record_writes (run es mounted_screen) = completed_fetches es mounted_screen \<and>
   fetch_results (run es mounted_screen) = completed_fetches es mounted_screen \<and>
   (mounted (run es mounted_screen) \<longrightarrow>
      codeRecords (run es mounted_screen) = latest (completed_fetches es mounted_screen)) \<and>
   record_writes (run es mounted_screen) = fetch_results (run es mounted_screen) \<and>
   (mounted (run es mounted_screen) \<longrightarrow>
      codeRecords (run es mounted_screen) = latest (fetch_results (run es mounted_screen))) \<and>
   codeRecords (step (BarcodeScanned d) s) = codeRecords s \<and>
   record_writes (step (BarcodeScanned d) s) = record_writes s"
proof -
  have start: "record_writes mounted_screen = [] \<and> fetch_results mounted_screen = [] \<and>
      codeRecords mounted_screen = []"
    by (simp add: record_writes_def fetch_results_def mounted_screen_eq)
  with run_writes [of es mounted_screen]
  have writes: "record_writes (run es mounted_screen) = completed_fetches es mounted_screen \<and>
      fetch_results (run es mounted_screen) = completed_fetches es mounted_screen"
    by simp
  have "mounted (run es mounted_screen) \<longrightarrow>
      codeRecords (run es mounted_screen) = latest (completed_fetches es mounted_screen)"
    using run_list [of es mounted_screen] start by (simp add: latest_def)
  with writes step_writes [of "BarcodeScanned d" s] show ?thesis
    by simp
qed

theorem record_list_is_latest_fetch_witness:
  "mounted
     (run [ConnectResolved (Handle 1), BarcodeScanned \<lparr>scan_data = ''ABC123'', scan_type = ''qr''\<rparr>,
           SaveResolved 0,
           EffectFetchResolved [\<lparr>content = ''OLD'', format = ''ean13'', record_id = Some ''1''\<rparr>],
           FetchResolved 0 [\<lparr>content = ''OLD'', format = ''ean13'', record_id = Some ''1''\<rparr>,
                            \<lparr>content = ''ABC123'', format = ''qr'', record_id = Some ''2''\<rparr>]]
        mounted_screen) \<and>
   completed_fetches
     [ConnectResolved (Handle 1), BarcodeScanned \<lparr>scan_data = ''ABC123'', scan_type = ''qr''\<rparr>,
      SaveResolved 0,
      EffectFetchResolved [\<lparr>content = ''OLD'', format = ''ean13'', record_id = Some ''1''\<rparr>],
      FetchResolved 0 [\<lparr>content = ''OLD'', format = ''ean13'', record_id = Some ''1''\<rparr>,
                       \<lparr>content = ''ABC123'', format = ''qr'', record_id = Some ''2''\<rparr>]]
     mounted_screen =
     [[\<lparr>content = ''OLD'', format = ''ean13'', record_id = Some ''1''\<rparr>],
      [\<lparr>content = ''OLD'', format = ''ean13'', record_id = Some ''1''\<rparr>,
       \<lparr>content = ''ABC123'', format = ''qr'', record_id = Some ''2''\<rparr>]] \<and>
   codeRecords
     (run [ConnectResolved (Handle 1), BarcodeScanned \<lparr>scan_data = ''ABC123'', scan_type = ''qr''\<rparr>,
           SaveResolved 0,
           EffectFetchResolved [\<lparr>content = ''OLD'', format = ''ean13'', record_id = Some ''1''\<rparr>],
           FetchResolved 0 [\<lparr>content = ''OLD'', format = ''ean13'', record_id = Some ''1''\<rparr>,
                            \<lparr>content = ''ABC123'', format = ''qr'', record_id = Some ''2''\<rparr>]]
        mounted_screen) =
     [\<lparr>content = ''OLD'', format = ''ean13'', record_id = Some ''1''\<rparr>,
      \<lparr>content = ''ABC123'', format = ''qr'', record_id = Some ''2''\<rparr>] \<and>
   codeRecords
     (run [ConnectResolved (Handle 1),
           EffectFetchResolved [\<lparr>content = ''OLD'', format = ''ean13'', record_id = Some ''1''\<rparr>]]
        mounted_screen) = [\<lparr>content = ''OLD'', format = ''ean13'', record_id = Some ''1''\<rparr>]"
  using record_list_is_latest_fetch
    [of "[ConnectResolved (Handle 1), BarcodeScanned \<lparr>scan_data = ''ABC123'', scan_type = ''qr''\<rparr>,
          SaveResolved 0,
          EffectFetchResolved [\<lparr>content = ''OLD'', format = ''ean13'', record_id = Some ''1''\<rparr>],
          FetchResolved 0 [\<lparr>content = ''OLD'', format = ''ean13'', record_id = Some ''1''\<rparr>,
                           \<lparr>content = ''ABC123'', format = ''qr'', record_id = Some ''2''\<rparr>]]"]
    record_list_is_latest_fetch
    [of "[ConnectResolved (Handle 1),
          EffectFetchResolved [\<lparr>content = ''OLD'', format = ''ean13'', record_id = Some ''1''\<rparr>]]"]
  by (simp add: mounted_screen_eq flow_defs Let_def latest_def)

subsection \<open>The database handle\<close>

lemma db_inv_step: "db_inv s \<Longrightarrow> db_inv (step e s)"
  unfolding db_inv_def calls_def
  by (cases e) (auto simp: flow_defs Let_def split: option.splits if_splits)

lemma db_inv_run: "db_inv (run es mounted_screen)"
proof (rule run_invariant)
  show "db_inv mounted_screen"
    by (simp add: db_inv_def calls_def mounted_screen_eq)
qed (rule db_inv_step)

text \<open>
  The handle is closed at most once, and exactly once when the open resolved on a screen
  that was still mounted and the screen was unmounted afterwards.
\<close>

lemma close_calls:
  "calls is_close (run es mounted_screen) =
     (if \<not> mounted (run es mounted_screen) \<and> database (run es mounted_screen) \<noteq> None
      then 1 else 0)"
  using db_inv_run [of es] by (simp add: db_inv_def)

text \<open>
  C3. In every execution the effect has called \<open>fetchAllCodes\<close> not at all while \<open>database\<close>
  is undefined, and exactly once when it is defined. When the open resolves on a mounted
  screen the handle is stored and that one fetch is issued at once; when the fetch resolves
  its result is passed to \<open>setCodeRecords\<close>, which on a mounted screen makes it the list.
\<close>

theorem first_fetch_once_handle_defined:
  "calls is_effect_fetch (run es mounted_screen) =
     (case database (run es mounted_screen) of None \<Rightarrow> 0 | Some h \<Rightarrow> 1) \<and>
   (databaseTask (run es mounted_screen) = AwaitConnect \<and> mounted (run es mounted_screen) \<longrightarrow>
      database (run es mounted_screen) = None \<and>
      database (step (ConnectResolved dbInstance) (run es mounted_screen)) = Some dbInstance \<and>
      trace (step (ConnectResolved dbInstance) (run es mounted_screen)) =
        trace (run es mounted_screen) @ [SetDatabase dbInstance, FetchAllCodes FromEffect]) \<and>
   (0 < effectFetches s \<longrightarrow>
      trace (step (EffectFetchResolved rs) s) =
        trace s @ [FetchAllCodesReturned FromEffect rs, SetCodeRecords rs] \<and>
      (mounted s \<longrightarrow> codeRecords (step (EffectFetchResolved rs) s) = rs))"
proof -
  have inv: "db_inv (run es mounted_screen)"
    by (rule db_inv_run)
  then have "calls is_effect_fetch (run es mounted_screen) =
     (case database (run es mounted_screen) of None \<Rightarrow> 0 | Some h \<Rightarrow> 1)"
    by (simp add: db_inv_def)
  moreover have "databaseTask (run es mounted_screen) = AwaitConnect \<and> mounted (run es mounted_screen) \<longrightarrow>
      database (run es mounted_screen) = None \<and>
      database (step (ConnectResolved dbInstance) (run es mounted_screen)) = Some dbInstance \<and>
      trace (step (ConnectResolved dbInstance) (run es mounted_screen)) =
        trace (run es mounted_screen) @ [SetDatabase dbInstance, FetchAllCodes FromEffect]"
    using inv by (simp add: db_inv_def flow_defs Let_def)
  moreover have "0 < effectFetches s \<longrightarrow>
      trace (step (EffectFetchResolved rs) s) =
        trace s @ [FetchAllCodesReturned FromEffect rs, SetCodeRecords rs] \<and>
      (mounted s \<longrightarrow> codeRecords (step (EffectFetchResolved rs) s) = rs)"
    by (simp add: flow_defs Let_def)
  ultimately show ?thesis by blast
qed

theorem first_fetch_once_handle_defined_witness:
  "databaseTask (run [BarcodeScanned \<lparr>scan_data = ''ABC123'', scan_type = ''qr''\<rparr>] mounted_screen) = AwaitConnect \<and>
   mounted (run [BarcodeScanned \<lparr>scan_data = ''ABC123'', scan_type = ''qr''\<rparr>] mounted_screen) \<and>
   calls is_effect_fetch (run [BarcodeScanned \<lparr>scan_data = ''ABC123'', scan_type = ''qr''\<rparr>] mounted_screen) = 0 \<and>
   database (run [BarcodeScanned \<lparr>scan_data = ''ABC123'', scan_type = ''qr''\<rparr>, ConnectResolved (Handle 1)]
      mounted_screen) = Some (Handle 1) \<and>
   0 < effectFetches (run [ConnectResolved (Handle 1)] mounted_screen) \<and>
   mounted (run [ConnectResolved (Handle 1)] mounted_screen) \<and>
   codeRecords (run [ConnectResolved (Handle 1),
                     EffectFetchResolved [\<lparr>content = ''ABC123'', format = ''qr'', record_id = None\<rparr>]]
      mounted_screen) = [\<lparr>content = ''ABC123'', format = ''qr'', record_id = None\<rparr>]"
  using first_fetch_once_handle_defined
    [of "[BarcodeScanned \<lparr>scan_data = ''ABC123'', scan_type = ''qr''\<rparr>]" "Handle 1"
        "run [ConnectResolved (Handle 1)] mounted_screen"
        "[\<lparr>content = ''ABC123'', format = ''qr'', record_id = None\<rparr>]"]
  by (simp add: mounted_screen_eq flow_defs Let_def calls_def)

lemma leaked_step: "leaked s \<Longrightarrow> leaked (step e s)"
  unfolding leaked_def calls_def
  by (cases e) (auto simp: flow_defs Let_def split: option.splits if_splits)

lemma step_keeps_trace: "a \<in> set (trace s) \<Longrightarrow> a \<in> set (trace (step e s))"
  by (cases e) (auto simp: flow_defs Let_def split: option.splits if_splits)

lemma run_keeps_trace: "a \<in> set (trace s) \<Longrightarrow> a \<in> set (trace (run es s))"
  by (induction es arbitrary: s) (simp_all add: step_keeps_trace)

lemma leaked_run: "leaked s \<Longrightarrow> leaked (run es s)"
  by (rule run_invariant) (simp_all add: leaked_step)

text \<open>
  C4. The screen is unmounted while \<open>connectDatabase\<close> is pending, and the open then resolves
  with a handle: \<open>initializeDatabase\<close> returns, and whatever happens afterwards
  \<open>closeConnection\<close> is never called.
\<close>

theorem late_open_is_never_closed:
  "databaseTask (run (Unmount # ConnectResolved dbInstance # es) mounted_screen) = OpenReturned \<and>
   SetDatabase dbInstance \<in> set (trace (run (Unmount # ConnectResolved dbInstance # es) mounted_screen)) \<and>
   calls is_close (run (Unmount # ConnectResolved dbInstance # es) mounted_screen) = 0"
proof -
  have "leaked (run [Unmount, ConnectResolved dbInstance] mounted_screen)"
    by (simp add: leaked_def calls_def mounted_screen_eq flow_defs Let_def)
  then have "leaked (run es (run [Unmount, ConnectResolved dbInstance] mounted_screen))"
    by (rule leaked_run)
  moreover have "SetDatabase dbInstance \<in>
      set (trace (run [Unmount, ConnectResolved dbInstance] mounted_screen))"
    by (simp add: mounted_screen_eq flow_defs Let_def)
  then have "SetDatabase dbInstance \<in>
      set (trace (run es (run [Unmount, ConnectResolved dbInstance] mounted_screen)))"
    by (rule run_keeps_trace)
  ultimately show ?thesis
    unfolding leaked_def by simp
qed


subsection \<open>The location bootstrap\<close>

lemma loc_inv_step: "loc_inv s \<Longrightarrow> loc_inv (step e s)"
  unfolding loc_inv_def calls_def
  by (cases e) (auto simp: flow_defs Let_def split: option.splits if_splits)

lemma loc_inv_run: "loc_inv (run es mounted_screen)"
proof (rule run_invariant)
  show "loc_inv mounted_screen"
    by (simp add: loc_inv_def calls_def mounted_screen_eq)
qed (rule loc_inv_step)

text \<open>Once \<open>active\<close> is false it stays false, and the bootstrap neither writes nor queries.\<close>

lemma inactive_step:
  "\<not> active s \<Longrightarrow>
     \<not> active (step e s) \<and>
     calls is_location_write (step e s) = calls is_location_write s \<and>
     calls is_position_query (step e s) = calls is_position_query s \<and>
     locationError (step e s) = locationError s \<and>
     currentLocation (step e s) = currentLocation s"
  unfolding calls_def
  by (cases e) (auto simp: flow_defs Let_def split: option.splits if_splits)

lemma inactive_run:
  "\<not> active s \<Longrightarrow>
     \<not> active (run es s) \<and>
     calls is_location_write (run es s) = calls is_location_write s \<and>
     calls is_position_query (run es s) = calls is_position_query s \<and>
     locationError (run es s) = locationError s \<and>
     currentLocation (run es s) = currentLocation s"
proof (induction es arbitrary: s)
  case Nil
  then show ?case by simp
next
  case (Cons e es)
  from inactive_step [OF Cons.prems, of e] Cons.IH [of "step e s"]
  show ?case by simp
qed

lemma unmount_inactive: "loc_inv s \<Longrightarrow> \<not> active (step Unmount s)"
  by (auto simp: loc_inv_def flow_defs split: option.splits)

text \<open>
  C5. After the screen is unmounted, at whatever point \<open>es1\<close> of the bootstrap, \<open>active\<close> is
  false, and nothing that happens later (\<open>es2\<close>, which may resolve the permission request or
  the position fix) makes \<open>setupLocationService\<close> call \<open>setLocationError\<close> or
  \<open>setCurrentLocation\<close>, or ask for the position: the number of those calls and both cells
  stay as they were at teardown.
\<close>

theorem location_flow_cancelled_by_teardown:
  "\<not> active (run (es1 @ [Unmount]) mounted_screen) \<and>
   calls is_location_write (run (es1 @ Unmount # es2) mounted_screen) =
     calls is_location_write (run (es1 @ [Unmount]) mounted_screen) \<and>
   calls is_position_query (run (es1 @ Unmount # es2) mounted_screen) =
     calls is_position_query (run (es1 @ [Unmount]) mounted_screen) \<and>
   locationError (run (es1 @ Unmount # es2) mounted_screen) =
     locationError (run (es1 @ [Unmount]) mounted_screen) \<and>
   currentLocation (run (es1 @ Unmount # es2) mounted_screen) =
     currentLocation (run (es1 @ [Unmount]) mounted_screen)"
proof -
  have off: "\<not> active (run (es1 @ [Unmount]) mounted_screen)"
    using unmount_inactive [OF loc_inv_run, of es1] by (simp add: run_append)
  have "run (es1 @ Unmount # es2) mounted_screen = run es2 (run (es1 @ [Unmount]) mounted_screen)"
    by (simp add: run_append)
  with off inactive_run [OF off, of es2] show ?thesis by simp
qed

text \<open>On an unmounted screen no update is applied: the handle and the list stay as they are.\<close>

lemma unmounted_step:
  "\<not> mounted s \<Longrightarrow>
     \<not> mounted (step e s) \<and> database (step e s) = database s \<and>
     codeRecords (step e s) = codeRecords s"
  by (cases e) (auto simp: flow_defs Let_def split: option.splits if_splits)

lemma unmounted_run:
  "\<not> mounted s \<Longrightarrow>
     \<not> mounted (run es s) \<and> database (run es s) = database s \<and>
     codeRecords (run es s) = codeRecords s"
proof (induction es arbitrary: s)
  case Nil
  then show ?case by simp
next
  case (Cons e es)
  from unmounted_step [OF Cons.prems, of e] Cons.IH [of "step e s"]
  show ?case by simp
qed

lemma after_unmount:
  "database (run (es1 @ Unmount # es2) mounted_screen) = database (run (es1 @ [Unmount]) mounted_screen) \<and>
   codeRecords (run (es1 @ Unmount # es2) mounted_screen) =
     codeRecords (run (es1 @ [Unmount]) mounted_screen)"
proof -
  have "\<not> mounted (run (es1 @ [Unmount]) mounted_screen)"
    by (simp add: run_append unmount_def databaseCleanup_def mountCleanup_def emit_def
          split: option.splits)
  from unmounted_run [OF this, of es2] show ?thesis
    by (simp add: run_append)
qed

text \<open>
  C6, as stated, fails: no late result is applied to state after teardown. With the screen
  unmounted while \<open>connectDatabase\<close> is pending, the handle that arrives leaves \<open>database\<close>
  undefined; with a scan delivered and the screen unmounted while \<open>saveCode\<close> is pending, the
  records that arrive leave the list empty; and there is no execution at all in which
  \<open>database\<close> or the list differs from what it was at teardown.
\<close>

theorem no_state_change_after_teardown:
  "database (run [Unmount, ConnectResolved (Handle 1)] mounted_screen) = None \<and>
   codeRecords
     (run [BarcodeScanned \<lparr>scan_data = ''ABC123'', scan_type = ''qr''\<rparr>, Unmount, SaveResolved 0,
           FetchResolved 0 [\<lparr>content = ''ABC123'', format = ''qr'', record_id = Some ''1''\<rparr>]]
        mounted_screen) = [] \<and>
   \<not> (\<exists>es1 es2.
        database (run (es1 @ Unmount # es2) mounted_screen) \<noteq>
          database (run (es1 @ [Unmount]) mounted_screen) \<or>
        codeRecords (run (es1 @ Unmount # es2) mounted_screen) \<noteq>
          codeRecords (run (es1 @ [Unmount]) mounted_screen))"
proof -
  have "database (run [Unmount, ConnectResolved (Handle 1)] mounted_screen) = None \<and>
   codeRecords
     (run [BarcodeScanned \<lparr>scan_data = ''ABC123'', scan_type = ''qr''\<rparr>, Unmount, SaveResolved 0,
           FetchResolved 0 [\<lparr>content = ''ABC123'', format = ''qr'', record_id = Some ''1''\<rparr>]]
        mounted_screen) = []"
    by (simp add: mounted_screen_eq flow_defs Let_def)
  with after_unmount show ?thesis
    by blast
qed

text \<open>
  C6, amended. Neither flow has a guard, so the late result still reaches the setter. The
  screen is unmounted while \<open>connectDatabase\<close> is pending: when the open resolves,
  \<open>initializeDatabase\<close> still calls \<open>setDatabase\<close> with the late handle. A scan is delivered
  and the screen is unmounted while \<open>saveCode\<close> is pending: when the save resolves the
  handler still calls \<open>fetchAllCodes\<close>, and when that resolves it still calls \<open>setCodeRecords\<close>
  with the late records. The update is not applied: in both executions, and after teardown
  in every execution, \<open>database\<close> and the list keep the values they had at teardown. The same
  results arriving on the mounted screen are applied.
\<close>

theorem open_and_scan_flows_are_not_cancelled:
  "\<not> mounted (run [Unmount] mounted_screen) \<and>
   databaseTask (run [Unmount] mounted_screen) = AwaitConnect \<and>
   trace (run [Unmount, ConnectResolved dbInstance] mounted_screen) =
     trace (run [Unmount] mounted_screen) @ [SetDatabase dbInstance] \<and>
   \<not> mounted (run [BarcodeScanned d, Unmount] mounted_screen) \<and>
   awaiting (run [BarcodeScanned d, Unmount] mounted_screen) 0 AwaitSave \<and>
   trace (run [BarcodeScanned d, Unmount, SaveResolved 0, FetchResolved 0 rs] mounted_screen) =
     trace (run [BarcodeScanned d, Unmount] mounted_screen) @
       [FetchAllCodes (FromHandler 0), FetchAllCodesReturned (FromHandler 0) rs, SetCodeRecords rs] \<and>
   database (run [Unmount, ConnectResolved dbInstance] mounted_screen) = None \<and>
   codeRecords (run [BarcodeScanned d, Unmount, SaveResolved 0, FetchResolved 0 rs] mounted_screen) = [] \<and>
   database (run [ConnectResolved dbInstance] mounted_screen) = Some dbInstance \<and>
   codeRecords (run [BarcodeScanned d, SaveResolved 0, FetchResolved 0 rs] mounted_screen) = rs \<and>
   database (run (es1 @ Unmount # es2) mounted_screen) =
     database (run (es1 @ [Unmount]) mounted_screen) \<and>
   codeRecords (run (es1 @ Unmount # es2) mounted_screen) =
     codeRecords (run (es1 @ [Unmount]) mounted_screen)"
proof -
  have "database (run (es1 @ Unmount # es2) mounted_screen) =
     database (run (es1 @ [Unmount]) mounted_screen) \<and>
   codeRecords (run (es1 @ Unmount # es2) mounted_screen) =
     codeRecords (run (es1 @ [Unmount]) mounted_screen)"
    by (rule after_unmount)
  then show ?thesis
    by (simp add: mounted_screen_eq flow_defs Let_def)
qed

lemma forms_distinct:
  "is_pending_form pending_text"
  "\<not> is_error_form pending_text"
  "\<not> is_coords_form pending_text"
  "\<not> is_pending_form (error_prefix @ m)"
  "is_error_form (error_prefix @ m)"
  "\<not> is_coords_form (error_prefix @ m)"
  "\<not> is_pending_form (coords_prefix @ n)"
  "\<not> is_error_form (coords_prefix @ n)"
  "is_coords_form (coords_prefix @ n)"
  by (simp_all add: is_pending_form_def is_error_form_def is_coords_form_def pending_text_def
        error_prefix_def coords_prefix_def)

lemma permission_message_nonempty: "permission_message \<noteq> []" "[] \<noteq> permission_message"
  by (simp_all add: permission_message_def)

lemma status_of_state:
  "loc_inv s \<Longrightarrow>
     (locationError s = None \<and> currentLocation s = None \<and> locationStatus fmt s = pending_text) \<or>
     (locationError s = Some permission_message \<and> currentLocation s = None \<and>
        locationStatus fmt s = error_prefix @ permission_message) \<or>
     (\<exists>p. locationError s = None \<and> currentLocation s = Some p \<and>
        locationStatus fmt s = coords_prefix @ fmt (latitude p) @ '', '' @ fmt (longitude p))"
  unfolding loc_inv_def locationStatus_def
  by (auto simp: permission_message_nonempty split: option.splits)

text \<open>
  C7. In every execution, and whatever the conversion of numbers to strings, the status line is
  the pending text when there is neither an error nor a position, \<open>Error: \<close> followed by the
  message when the error is set (and then no position is), and the coordinates line when a
  position is set (and then no error is). Each of the three is of its own form and of neither
  of the other two; that much holds of the status line of any state \<open>s\<close> at all.
\<close>

theorem location_status_one_of_three:
  "((locationError (run es mounted_screen) = None \<and> currentLocation (run es mounted_screen) = None \<and>
      locationStatus fmt (run es mounted_screen) = pending_text \<and>
      is_pending_form (locationStatus fmt (run es mounted_screen)) \<and>
      \<not> is_error_form (locationStatus fmt (run es mounted_screen)) \<and>
      \<not> is_coords_form (locationStatus fmt (run es mounted_screen))) \<or>
   (locationError (run es mounted_screen) = Some permission_message \<and>
      currentLocation (run es mounted_screen) = None \<and>
      locationStatus fmt (run es mounted_screen) = error_prefix @ permission_message \<and>
      \<not> is_pending_form (locationStatus fmt (run es mounted_screen)) \<and>
      is_error_form (locationStatus fmt (run es mounted_screen)) \<and>
      \<not> is_coords_form (locationStatus fmt (run es mounted_screen))) \<or>
   (\<exists>p. locationError (run es mounted_screen) = None \<and>
      currentLocation (run es mounted_screen) = Some p \<and>
      locationStatus fmt (run es mounted_screen) =
        coords_prefix @ fmt (latitude p) @ '', '' @ fmt (longitude p) \<and>
      \<not> is_pending_form (locationStatus fmt (run es mounted_screen)) \<and>
      \<not> is_error_form (locationStatus fmt (run es mounted_screen)) \<and>
      is_coords_form (locationStatus fmt (run es mounted_screen)))) \<and>
   ((is_pending_form (locationStatus fmt s) \<and> \<not> is_error_form (locationStatus fmt s) \<and>
       \<not> is_coords_form (locationStatus fmt s)) \<or>
    (\<not> is_pending_form (locationStatus fmt s) \<and> is_error_form (locationStatus fmt s) \<and>
       \<not> is_coords_form (locationStatus fmt s)) \<or>
    (\<not> is_pending_form (locationStatus fmt s) \<and> \<not> is_error_form (locationStatus fmt s) \<and>
       is_coords_form (locationStatus fmt s)))"
proof
  show "(locationError (run es mounted_screen) = None \<and> currentLocation (run es mounted_screen) = None \<and>
      locationStatus fmt (run es mounted_screen) = pending_text \<and>
      is_pending_form (locationStatus fmt (run es mounted_screen)) \<and>
      \<not> is_error_form (locationStatus fmt (run es mounted_screen)) \<and>
      \<not> is_coords_form (locationStatus fmt (run es mounted_screen))) \<or>
   (locationError (run es mounted_screen) = Some permission_message \<and>
      currentLocation (run es mounted_screen) = None \<and>
      locationStatus fmt (run es mounted_screen) = error_prefix @ permission_message \<and>
      \<not> is_pending_form (locationStatus fmt (run es mounted_screen)) \<and>
      is_error_form (locationStatus fmt (run es mounted_screen)) \<and>
      \<not> is_coords_form (locationStatus fmt (run es mounted_screen))) \<or>
   (\<exists>p. locationError (run es mounted_screen) = None \<and>
      currentLocation (run es mounted_screen) = Some p \<and>
      locationStatus fmt (run es mounted_screen) =
        coords_prefix @ fmt (latitude p) @ '', '' @ fmt (longitude p) \<and>
      \<not> is_pending_form (locationStatus fmt (run es mounted_screen)) \<and>
      \<not> is_error_form (locationStatus fmt (run es mounted_screen)) \<and>
      is_coords_form (locationStatus fmt (run es mounted_screen)))"
    using status_of_state [OF loc_inv_run, of es fmt]
    by (elim disjE exE) (simp_all add: forms_distinct)
  show "(is_pending_form (locationStatus fmt s) \<and> \<not> is_error_form (locationStatus fmt s) \<and>
       \<not> is_coords_form (locationStatus fmt s)) \<or>
    (\<not> is_pending_form (locationStatus fmt s) \<and> is_error_form (locationStatus fmt s) \<and>
       \<not> is_coords_form (locationStatus fmt s)) \<or>
    (\<not> is_pending_form (locationStatus fmt s) \<and> \<not> is_error_form (locationStatus fmt s) \<and>
       is_coords_form (locationStatus fmt s))"
    unfolding locationStatus_def
    by (simp add: forms_distinct split: option.splits)
qed

theorem location_status_one_of_three_witness:
  "locationStatus (\<lambda>x. if x = 19 then ''19'' else ''-99'')
     (run [PermissionResolved ''granted'', PositionResolved \<lparr>latitude = 19, longitude = -99\<rparr>]
        mounted_screen) = coords_prefix @ ''19, -99'' \<and>
   is_coords_form (locationStatus (\<lambda>x. if x = 19 then ''19'' else ''-99'')
     (run [PermissionResolved ''granted'', PositionResolved \<lparr>latitude = 19, longitude = -99\<rparr>]
        mounted_screen)) \<and>
   \<not> is_error_form (locationStatus (\<lambda>x. if x = 19 then ''19'' else ''-99'')
     (run [PermissionResolved ''granted'', PositionResolved \<lparr>latitude = 19, longitude = -99\<rparr>]
        mounted_screen)) \<and>
   \<not> is_pending_form (locationStatus (\<lambda>x. if x = 19 then ''19'' else ''-99'')
     (run [PermissionResolved ''granted'', PositionResolved \<lparr>latitude = 19, longitude = -99\<rparr>]
        mounted_screen))"
  using location_status_one_of_three
    [of "[PermissionResolved ''granted'', PositionResolved \<lparr>latitude = 19, longitude = -99\<rparr>]"
        "\<lambda>x. if x = 19 then ''19'' else ''-99''"]
  by (simp add: mounted_screen_eq flow_defs Let_def locationStatus_def)


text \<open>Once \<open>setupLocationService\<close> has returned, nothing of the bootstrap changes any more.\<close>

lemma returned_step:
  "locationTask s = LocReturned \<Longrightarrow>
     locationTask (step e s) = LocReturned \<and>
     locationError (step e s) = locationError s \<and>
     currentLocation (step e s) = currentLocation s \<and>
     calls is_position_query (step e s) = calls is_position_query s \<and>
     calls is_permission_request (step e s) = calls is_permission_request s"
  unfolding calls_def
  by (cases e) (auto simp: flow_defs Let_def split: option.splits if_splits)

lemma returned_run:
  "locationTask s = LocReturned \<Longrightarrow>
     locationTask (run es s) = LocReturned \<and>
     locationError (run es s) = locationError s \<and>
     currentLocation (run es s) = currentLocation s \<and>
     calls is_position_query (run es s) = calls is_position_query s \<and>
     calls is_permission_request (run es s) = calls is_permission_request s"
proof (induction es arbitrary: s)
  case Nil
  then show ?case by simp
next
  case (Cons e es)
  from returned_step [OF Cons.prems, of e] Cons.IH [of "step e s"]
  show ?case by simp
qed

lemma denied_step:
  "loc_inv s \<Longrightarrow> locationTask s = AwaitPermission \<Longrightarrow> status \<noteq> ''granted'' \<Longrightarrow>
     locationTask (step (PermissionResolved status) s) = LocReturned \<and>
     (active s \<longrightarrow> locationError (step (PermissionResolved status) s) = Some permission_message) \<and>
     currentLocation (step (PermissionResolved status) s) = None \<and>
     calls is_position_query (step (PermissionResolved status) s) = 0 \<and>
     calls is_permission_request (step (PermissionResolved status) s) = 1"
  unfolding loc_inv_def calls_def
  by (auto simp: flow_defs Let_def)

text \<open>
  C8, as stated, fails when the denial arrives after teardown: the screen is unmounted while
  the permission request is pending, the request resolves as \<open>denied\<close>, and line 38 returns
  before line 41, so \<open>setLocationError\<close> is not called and the error stays unset.
\<close>

theorem denied_after_teardown_sets_no_error:
  "locationTask (run [Unmount] mounted_screen) = AwaitPermission \<and>
   locationTask (run [Unmount, PermissionResolved ''denied''] mounted_screen) = LocReturned \<and>
   locationError (run [Unmount, PermissionResolved ''denied''] mounted_screen) = None \<and>
   calls is_location_write (run [Unmount, PermissionResolved ''denied''] mounted_screen) = 0"
  by (simp add: mounted_screen_eq flow_defs Let_def calls_def)

text \<open>
  C8, amended. The permission request is pending after \<open>es1\<close> and resolves with a status other
  than \<open>granted\<close>. If the screen is still active, the error is the fixed message, then and
  after every continuation \<open>es2\<close>. Active or not, the position is never asked for, the
  coordinates are never set, and the permission is not requested a second time.
\<close>

theorem denied_while_active_sets_error_for_good:
  assumes "locationTask (run es1 mounted_screen) = AwaitPermission" and "status \<noteq> ''granted''"
  shows
    "(active (run es1 mounted_screen) \<longrightarrow>
        locationError (run (es1 @ PermissionResolved status # es2) mounted_screen) =
          Some permission_message) \<and>
     calls is_position_query (run (es1 @ PermissionResolved status # es2) mounted_screen) = 0 \<and>
     currentLocation (run (es1 @ PermissionResolved status # es2) mounted_screen) = None \<and>
     calls is_permission_request (run (es1 @ PermissionResolved status # es2) mounted_screen) = 1"
proof -
  let ?s = "run es1 mounted_screen"
  let ?s' = "step (PermissionResolved status) ?s"
  have now: "locationTask ?s' = LocReturned \<and>
     (active ?s \<longrightarrow> locationError ?s' = Some permission_message) \<and>
     currentLocation ?s' = None \<and>
     calls is_position_query ?s' = 0 \<and>
     calls is_permission_request ?s' = 1"
    using loc_inv_run assms by (rule denied_step)
  then have "locationTask ?s' = LocReturned"
    by simp
  from returned_run [OF this, of es2] now
  have "(active ?s \<longrightarrow> locationError (run es2 ?s') = Some permission_message) \<and>
     calls is_position_query (run es2 ?s') = 0 \<and>
     currentLocation (run es2 ?s') = None \<and>
     calls is_permission_request (run es2 ?s') = 1"
    by simp
  then show ?thesis
    by (simp add: run_append)
qed

theorem denied_while_active_sets_error_for_good_witness:
  "locationTask (run [BarcodeScanned \<lparr>scan_data = ''ABC123'', scan_type = ''qr''\<rparr>] mounted_screen) =
     AwaitPermission \<and>
   ''denied'' \<noteq> ''granted'' \<and>
   active (run [BarcodeScanned \<lparr>scan_data = ''ABC123'', scan_type = ''qr''\<rparr>] mounted_screen) \<and>
   locationError
     (run ([BarcodeScanned \<lparr>scan_data = ''ABC123'', scan_type = ''qr''\<rparr>] @
           PermissionResolved ''denied'' #
           [PositionResolved \<lparr>latitude = 19, longitude = -99\<rparr>, PermissionResolved ''granted'', Unmount])
        mounted_screen) = Some permission_message \<and>
   currentLocation
     (run ([BarcodeScanned \<lparr>scan_data = ''ABC123'', scan_type = ''qr''\<rparr>] @
           PermissionResolved ''denied'' #
           [PositionResolved \<lparr>latitude = 19, longitude = -99\<rparr>, PermissionResolved ''granted'', Unmount])
        mounted_screen) = None \<and>
   calls is_position_query
     (run ([BarcodeScanned \<lparr>scan_data = ''ABC123'', scan_type = ''qr''\<rparr>] @
           PermissionResolved ''denied'' #
           [PositionResolved \<lparr>latitude = 19, longitude = -99\<rparr>, PermissionResolved ''granted'', Unmount])
        mounted_screen) = 0"
proof -
  have pending:
    "locationTask (run [BarcodeScanned \<lparr>scan_data = ''ABC123'', scan_type = ''qr''\<rparr>] mounted_screen) =
       AwaitPermission"
    by (simp add: mounted_screen_eq flow_defs)
  have status: "''denied'' \<noteq> ''granted''"
    by simp
  have "active (run [BarcodeScanned \<lparr>scan_data = ''ABC123'', scan_type = ''qr''\<rparr>] mounted_screen)"
    by (simp add: mounted_screen_eq flow_defs)
  with pending status
    denied_while_active_sets_error_for_good [OF pending status,
      of "[PositionResolved \<lparr>latitude = 19, longitude = -99\<rparr>, PermissionResolved ''granted'', Unmount]"]
  show ?thesis by simp
qed

subsection \<open>Copy, and the scan handler against the handle\<close>

text \<open>
  C9. Pressing \<open>Copiar\<close> on an item adds two calls to the trace, the clipboard write of the
  item's content and the notice, and changes nothing else of the state: the record list, the
  number of \<open>saveCode\<close> and of \<open>fetchAllCodes\<close> calls and the values written to the list are
  what they were.
\<close>

theorem copy_only_writes_clipboard:
  "step (CopyPressed item) s =
     s\<lparr>trace := trace s @ [ClipboardSetString (content item),
                            AlertAlert ''Copiado!'' ''Texto en portapapeles'']\<rparr> \<and>
   codeRecords (step (CopyPressed item) s) = codeRecords s \<and>
   calls is_save (step (CopyPressed item) s) = calls is_save s \<and>
   calls is_fetch (step (CopyPressed item) s) = calls is_fetch s \<and>
   record_writes (step (CopyPressed item) s) = record_writes s"
  by (simp add: flow_defs calls_def record_writes_def map_filter_append)

text \<open>
  C10. The three parts of \<open>handleScanResult\<close> commute with any change of \<open>database\<close> and of the
  registered cleanup: they neither read nor write them. So from every state, whatever the
  handle is, a scan whose save resolves has called \<open>saveCode\<close> and then \<open>fetchAllCodes\<close>; in
  particular with the open still pending, and after the handle was closed at teardown.
\<close>

theorem scan_flow_ignores_database_handle:
  "step (BarcodeScanned d) (s\<lparr>database := x, dbCleanup := c\<rparr>) =
     (step (BarcodeScanned d) s)\<lparr>database := x, dbCleanup := c\<rparr> \<and>
   step (SaveResolved t) (s\<lparr>database := x, dbCleanup := c\<rparr>) =
     (step (SaveResolved t) s)\<lparr>database := x, dbCleanup := c\<rparr> \<and>
   step (FetchResolved t rs) (s\<lparr>database := x, dbCleanup := c\<rparr>) =
     (step (FetchResolved t rs) s)\<lparr>database := x, dbCleanup := c\<rparr> \<and>
   trace (run [BarcodeScanned d, SaveResolved (length (scanTasks s))] s) =
     trace s @ [AlertAlert detected_title (scan_data d),
                SaveCode \<lparr>content = scan_data d, format = scan_type d\<rparr>,
                FetchAllCodes (FromHandler (length (scanTasks s)))] \<and>
   database (run [BarcodeScanned d, SaveResolved 0] mounted_screen) = None \<and>
   databaseTask (run [BarcodeScanned d, SaveResolved 0] mounted_screen) = AwaitConnect \<and>
   trace (run [BarcodeScanned d, SaveResolved 0] mounted_screen) =
     [RequestForegroundPermissions, ConnectDatabase, AlertAlert detected_title (scan_data d),
      SaveCode \<lparr>content = scan_data d, format = scan_type d\<rparr>, FetchAllCodes (FromHandler 0)] \<and>
   trace (run [ConnectResolved h, Unmount, BarcodeScanned d, SaveResolved 0] mounted_screen) =
     [RequestForegroundPermissions, ConnectDatabase, SetDatabase h, FetchAllCodes FromEffect,
      CloseConnection h, AlertAlert detected_title (scan_data d),
      SaveCode \<lparr>content = scan_data d, format = scan_type d\<rparr>, FetchAllCodes (FromHandler 0)]"
  by (simp add: mounted_screen_eq flow_defs Let_def)

end
